theory Spec2Isabelle
  imports Complex_Main
begin

section \<open>Resume roaster: the Lambda handler and its RAG pipeline\<close>

text \<open>
  The handler of \<^verbatim>\<open>backend/handler.py\<close> and the helpers of
  \<^verbatim>\<open>backend/rag_pipeline.py\<close>. The code is a linear pipeline over library and
  service calls (the JSON decoder, S3, the PDF loader, the text splitter, the FAISS
  index, the Bedrock chat model, the file system, the clock). Each of them is a field
  of an environment record: a function that returns a value or the exception it raises.
  What the code itself decides (the order of the steps, the checks, the mapping of
  exceptions to status codes, the clean-up, the response envelope) is modelled step by
  step.
\<close>

subsection \<open>Values\<close>

text \<open>
  What \<^verbatim>\<open>json.loads\<close> returns: \<^verbatim>\<open>None\<close>, a bool, an int, a float, a str, a list or a
  dict. A dict is an association list read with \<open>map_of\<close>. A float is its real value.
  Strings are lists of characters; \<^verbatim>\<open>len\<close> and slicing count list elements.
\<close>

datatype json =
    JNull
  | JBool bool
  | JInt int
  | JFloat real
  | JString string
  | JArray "json list"
  | JObject "(string \<times> json) list"

text \<open>Python's truth value of an object, as \<^verbatim>\<open>all([...])\<close> tests it.\<close>

fun truthy :: "json \<Rightarrow> bool" where
  "truthy JNull = False"
| "truthy (JBool b) = b"
| "truthy (JInt i) = (i \<noteq> 0)"
| "truthy (JFloat x) = (x \<noteq> 0)"
| "truthy (JString s) = (s \<noteq> [])"
| "truthy (JArray xs) = (xs \<noteq> [])"
| "truthy (JObject kvs) = (kvs \<noteq> [])"

fun type_name :: "json \<Rightarrow> string" where
  "type_name JNull = ''NoneType''"
| "type_name (JBool b) = ''bool''"
| "type_name (JInt i) = ''int''"
| "type_name (JFloat x) = ''float''"
| "type_name (JString s) = ''str''"
| "type_name (JArray xs) = ''list''"
| "type_name (JObject kvs) = ''dict''"

text \<open>
  Exceptions. The handler tells \<^verbatim>\<open>json.JSONDecodeError\<close> from every other subclass of
  \<^verbatim>\<open>Exception\<close>; the string is \<^verbatim>\<open>str(e)\<close>.
\<close>

datatype py_exception = JSONDecodeError string | OtherException string

fun exc_message :: "py_exception \<Rightarrow> string" where
  "exc_message (JSONDecodeError m) = m"
| "exc_message (OtherException m) = m"

text \<open>\<^verbatim>\<open>d.get(key)\<close>: \<^verbatim>\<open>None\<close> for a missing key; AttributeError on an object that is no dict.\<close>

definition dict_lookup :: "(string \<times> json) list \<Rightarrow> string \<Rightarrow> json" where
  "dict_lookup kvs k = (case map_of kvs k of None \<Rightarrow> JNull | Some v \<Rightarrow> v)"

fun dict_get :: "json \<Rightarrow> string \<Rightarrow> py_exception + json" where
  "dict_get (JObject kvs) k = Inr (dict_lookup kvs k)"
| "dict_get v k =
     Inl (OtherException ([CHR 0x27] @ type_name v @ [CHR 0x27] @ '' object has no attribute '' @
       [CHR 0x27] @ ''get'' @ [CHR 0x27]))"

text \<open>\<^verbatim>\<open>event.get('body', '{}')\<close> on the event dict.\<close>

type_synonym event = "(string \<times> json) list"

definition event_body :: "event \<Rightarrow> json" where
  "event_body event = (case map_of event ''body'' of None \<Rightarrow> JString ''{}'' | Some v \<Rightarrow> v)"

text \<open>A page or a chunk: LangChain's \<^verbatim>\<open>Document\<close>.\<close>

record document =
  page_content :: string
  metadata :: "(string \<times> json) list"

type_synonym blob = string

subsection \<open>Decimal digits, joining, enumerating\<close>

definition digit_char :: "nat \<Rightarrow> char" where
  "digit_char d = ''0123456789'' ! d"

function str_nat :: "nat \<Rightarrow> string" where
  "str_nat n =
     (if n < 10 then [digit_char n] else str_nat (n div 10) @ [digit_char (n mod 10)])"
  by pat_completeness auto
termination
  by (relation "measure id") auto

declare str_nat.simps [simp del]

definition newline :: string where
  "newline = [CHR 0x0A]"

text \<open>\<^verbatim>\<open>sep.join(parts)\<close>.\<close>

fun str_join :: "string \<Rightarrow> string list \<Rightarrow> string" where
  "str_join sep [] = []"
| "str_join sep [x] = x"
| "str_join sep (x # y # ys) = x @ sep @ str_join sep (y # ys)"

subsection \<open>The world and the environment\<close>

text \<open>
  The state a request runs in: the files of the scratch directory, and the trace of
  what the code did to the outside (every line it printed and every call it made to a
  library or a service, in order).
\<close>

datatype effect =
    Print string
  | Print_traceback
  | S3_download_file json json string
  | PyPDFLoader_load string
  | Split_documents "document list"
  | FAISS_from_documents string "document list"
  | Similarity_search string int
  | ChatBedrock_invoke string "(string \<times> json) list" "(string \<times> string) list"
  | Os_remove string

record world =
  files :: "string \<Rightarrow> blob option"
  trace :: "effect list"

text \<open>
  The libraries and services, as the code calls them. \<open>'vs\<close> is the vector store.
  \<^item> \<open>json_decoder\<close>: \<^verbatim>\<open>json.loads\<close> on a str.
  \<^item> \<open>str_builtin\<close>: \<^verbatim>\<open>str(v)\<close> of a value that is not a str.
  \<^item> \<open>s3_object\<close>: what \<^verbatim>\<open>download_file(bucket, key, path)\<close> fetches, or its exception.
  \<^item> \<open>pdf_loader\<close>: \<^verbatim>\<open>PyPDFLoader(path).load()\<close> on the content found at the path
    (\<open>None\<close> when there is no file).
  \<^item> \<open>splitter\<close>: \<^verbatim>\<open>RecursiveCharacterTextSplitter(chunk_size, chunk_overlap,
    separators).split_documents\<close>.
  \<^item> \<open>faiss_from_documents\<close>: \<^verbatim>\<open>FAISS.from_documents\<close> with the named embedding model.
  \<^item> \<open>similarity_search\<close>: \<^verbatim>\<open>vectorstore.similarity_search(query, k)\<close>.
  \<^item> \<open>chat_invoke\<close>: \<^verbatim>\<open>ChatBedrock(model_id, model_kwargs).invoke(messages).content\<close>.
  \<^item> \<open>os_remove_error\<close>: the exception \<^verbatim>\<open>os.remove(path)\<close> raises, if it does.
  \<^item> \<open>time_at_entry\<close>, \<open>time_after_roast\<close>: the two readings of \<^verbatim>\<open>time.time()\<close>.
\<close>

record 'vs env =
  json_decoder :: "string \<Rightarrow> py_exception + json"
  str_builtin :: "json \<Rightarrow> string"
  s3_object :: "json \<Rightarrow> json \<Rightarrow> string \<Rightarrow> py_exception + blob"
  pdf_loader :: "blob option \<Rightarrow> py_exception + document list"
  splitter :: "nat \<Rightarrow> nat \<Rightarrow> string list \<Rightarrow> document list \<Rightarrow> py_exception + document list"
  faiss_from_documents :: "string \<Rightarrow> document list \<Rightarrow> py_exception + 'vs"
  similarity_search :: "'vs \<Rightarrow> string \<Rightarrow> int \<Rightarrow> py_exception + document list"
  chat_invoke ::
    "string \<Rightarrow> (string \<times> json) list \<Rightarrow> (string \<times> string) list \<Rightarrow> py_exception + string"
  os_remove_error :: "string \<Rightarrow> py_exception option"
  time_at_entry :: real
  time_after_roast :: real

subsection \<open>Actions: state passing with exceptions\<close>

type_synonym 'a action = "world \<Rightarrow> (py_exception + 'a) \<times> world"

definition returns :: "'a \<Rightarrow> 'a action" where
  "returns x w = (Inr x, w)"

definition and_then :: "'a action \<Rightarrow> ('a \<Rightarrow> 'b action) \<Rightarrow> 'b action" where
  "and_then m f w = (case m w of (Inl e, w') \<Rightarrow> (Inl e, w') | (Inr x, w') \<Rightarrow> f x w')"

text \<open>\<^verbatim>\<open>try: m except Exception as e: h(e)\<close>.\<close>

definition try_except :: "'a action \<Rightarrow> (py_exception \<Rightarrow> 'a action) \<Rightarrow> 'a action" where
  "try_except m h w = (case m w of (Inl e, w') \<Rightarrow> h e w' | (Inr x, w') \<Rightarrow> (Inr x, w'))"

definition emit :: "effect \<Rightarrow> world \<Rightarrow> world" where
  "emit ef w = w\<lparr>trace := trace w @ [ef]\<rparr>"

definition python_print :: "string \<Rightarrow> unit action" where
  "python_print s w = (Inr (), emit (Print s) w)"

text \<open>A call to a library or a service: it is recorded, then it returns or raises.\<close>

definition call :: "effect \<Rightarrow> py_exception + 'a \<Rightarrow> 'a action" where
  "call ef r w = (r, emit ef w)"

text \<open>A pure step that may raise.\<close>

definition lift :: "py_exception + 'a \<Rightarrow> 'a action" where
  "lift r w = (r, w)"

subsection \<open>Library calls with a state\<close>

text \<open>\<^verbatim>\<open>json.loads(x)\<close>: a TypeError on what is no str.\<close>

definition json_loads :: "'vs env \<Rightarrow> json \<Rightarrow> py_exception + json" where
  "json_loads env x =
     (case x of
        JString s \<Rightarrow> json_decoder env s
      | _ \<Rightarrow> Inl (OtherException
          (''the JSON object must be str, bytes or bytearray, not '' @ type_name x)))"

text \<open>A value in an f-string: a str as it is, anything else through \<^verbatim>\<open>str()\<close>.\<close>

definition py_format :: "'vs env \<Rightarrow> json \<Rightarrow> string" where
  "py_format env v = (case v of JString s \<Rightarrow> s | _ \<Rightarrow> str_builtin env v)"

text \<open>
  \<^verbatim>\<open>s3_client.download_file(bucket, key, path)\<close>: on success the object is the file at the
  path; a download that raises leaves the files as they were.
\<close>

definition download_file :: "'vs env \<Rightarrow> json \<Rightarrow> json \<Rightarrow> string \<Rightarrow> unit action" where
  "download_file env bucket key path =
     and_then (call (S3_download_file bucket key path) (s3_object env bucket key path))
       (\<lambda>content w. (Inr (), w\<lparr>files := (files w)(path \<mapsto> content)\<rparr>))"

definition os_path_getsize :: "string \<Rightarrow> nat action" where
  "os_path_getsize path w =
     (case files w path of
        None \<Rightarrow> (Inl (OtherException
          (''[Errno 2] No such file or directory: '' @ [CHR 0x27] @ path @ [CHR 0x27])), w)
      | Some content \<Rightarrow> (Inr (length content), w))"

definition os_path_exists :: "string \<Rightarrow> world \<Rightarrow> bool" where
  "os_path_exists path w = (files w path \<noteq> None)"

definition os_remove :: "'vs env \<Rightarrow> string \<Rightarrow> unit action" where
  "os_remove env path w =
     (case os_remove_error env path of
        Some e \<Rightarrow> (Inl e, emit (Os_remove path) w)
      | None \<Rightarrow> (Inr (), (emit (Os_remove path) w)\<lparr>files := (files w)(path := None)\<rparr>))"

text \<open>\<^verbatim>\<open>int(x)\<close> of a float: truncation towards zero.\<close>

definition py_int :: "real \<Rightarrow> int" where
  "py_int x = (if 0 \<le> x then \<lfloor>x\<rfloor> else \<lceil>x\<rceil>)"

subsection \<open>\<^verbatim>\<open>rag_pipeline.py\<close>\<close>

definition load_pdf :: "'vs env \<Rightarrow> string \<Rightarrow> document list action" where
  "load_pdf env file_path =
     (\<lambda>w. and_then (call (PyPDFLoader_load file_path) (pdf_loader env (files w file_path)))
       (\<lambda>documents. and_then
          (python_print (''[RAG] Loaded '' @ str_nat (length documents) @ '' pages from PDF''))
          (\<lambda>_. returns documents)) w)"

definition chunk_size :: nat where
  "chunk_size = 2000"

definition chunk_overlap :: nat where
  "chunk_overlap = 100"

definition separators :: "string list" where
  "separators = [newline @ newline, newline, '' '', []]"

definition chunk_text :: "'vs env \<Rightarrow> document list \<Rightarrow> document list action" where
  "chunk_text env documents =
     and_then (call (Split_documents documents)
         (splitter env chunk_size chunk_overlap separators documents))
       (\<lambda>chunks. and_then
          (python_print (''[RAG] Created '' @ str_nat (length chunks) @ '' chunks from '' @
             str_nat (length documents) @ '' pages''))
          (\<lambda>_. returns chunks))"

definition embedding_model_id :: string where
  "embedding_model_id = ''amazon.titan-embed-text-v1''"

definition initialize_vectorstore :: "'vs env \<Rightarrow> document list \<Rightarrow> json \<Rightarrow> 'vs action" where
  "initialize_vectorstore env chunks request_id =
     and_then
       (python_print (''[RAG] Initializing FAISS vector store for request '' @
          py_format env request_id))
       (\<lambda>_. and_then (call (FAISS_from_documents embedding_model_id chunks)
           (faiss_from_documents env embedding_model_id chunks))
         (\<lambda>vectorstore. and_then
            (python_print (''[RAG] Embedded '' @ str_nat (length chunks) @ '' chunks into FAISS''))
            (\<lambda>_. returns vectorstore)))"

definition retrieve_context :: "'vs env \<Rightarrow> 'vs \<Rightarrow> string \<Rightarrow> int \<Rightarrow> document list action" where
  "retrieve_context env vectorstore query k =
     and_then (call (Similarity_search query k) (similarity_search env vectorstore query k))
       (\<lambda>results. and_then
          (python_print (''[RAG] Retrieved '' @ str_nat (length results) @ '' relevant chunks''))
          (\<lambda>_. returns results))"

definition chat_model_id :: string where
  "chat_model_id = ''us.anthropic.claude-3-5-sonnet-20241022-v2:0''"

definition model_kwargs :: "(string \<times> json) list" where
  "model_kwargs =
     [(''max_tokens'', JInt 3000), (''temperature'', JFloat (8 / 10)), (''top_p'', JFloat (9 / 10))]"

definition system_prompt :: string where
  "system_prompt = str_join newline
     [''You are a witty Gen Z resume critic who keeps it real. Use Gen Z slang naturally (words like \"cooked\", \"bro is...\", \"you're cooked\", \"fr fr\", \"no cap\", \"mid\", \"it's giving...\", etc).'',
      [],
      ''CRITICAL CONTEXT: The current year is 2025/2026. When reviewing work experience, anything from 2023-2026 is recent and current. DO NOT refer to 2024 or 2025 as \"future\" - they are NOW or the recent past. Any content in brackets [] is for your information only and should not be displayed in your response.'',
      [],
      ''Your job is to roast resumes with brutal honesty while providing actionable feedback.'',
      ''Be sarcastic but constructive. Point out clich'' @ [CHR 0xE9] @ ''s, buzzwords, formatting issues, and weak accomplishments.'',
      [],
      ''Structure your roast in sections (put in subtitles):'',
      ''1. **Summary (Roast)** - Overall vibe check (2-3 sentences)'',
      ''2. **Experience Critique** - Call out weak bullets, buzzwords, vague accomplishments'',
      ''3. **Skills Assessment** - Roast generic skills, missing technical depth'',
      ''4. **Format & Style** - Comment on layout, length, readability'',
      [],
      ''Keep the vibe casual but insightful - like a brutally honest friend reviewing their homie's resume.'',
      ''End with 2-3 concrete actionable tips to actually improve the resume.'']"

definition user_prompt :: "string \<Rightarrow> string \<Rightarrow> string" where
  "user_prompt context resume_text = str_join newline
     [''Here's a resume that needs your honest roasting:'',
      [],
      ''RESUME CONTENT:'',
      take 3000 resume_text,
      [],
      ''RELEVANT SECTIONS (from vector search):'',
      context,
      [],
      ''Roast this resume with your signature Gen Z style. Be brutally honest but constructive.'']"

definition chat_messages :: "string \<Rightarrow> string \<Rightarrow> (string \<times> string) list" where
  "chat_messages context resume_text =
     [(''system'', system_prompt), (''user'', user_prompt context resume_text)]"

definition generate_roast :: "'vs env \<Rightarrow> string \<Rightarrow> string \<Rightarrow> string action" where
  "generate_roast env context resume_text =
     and_then (python_print ''[RAG] Generating roast with Claude 3.5 Sonnet...'')
       (\<lambda>_. and_then
          (call (ChatBedrock_invoke chat_model_id model_kwargs (chat_messages context resume_text))
             (chat_invoke env chat_model_id model_kwargs (chat_messages context resume_text)))
          (\<lambda>roast. and_then
             (python_print (''[RAG] Generated roast ('' @ str_nat (length roast) @ '' chars)''))
             (\<lambda>_. returns roast)))"

definition extract_full_text :: "document list \<Rightarrow> string" where
  "extract_full_text documents = str_join (newline @ newline) (map page_content documents)"

subsection \<open>\<^verbatim>\<open>handler.py\<close>\<close>

text \<open>
  The response envelope. \<open>body\<close> is the object handed to \<^verbatim>\<open>json.dumps\<close>; its
  serialisation to text is the library's.
\<close>

record response =
  statusCode :: int
  headers :: "(string \<times> string) list"
  body :: json

definition cors_headers :: "(string \<times> string) list" where
  "cors_headers =
     [(''Content-Type'', ''application/json''),
      (''Access-Control-Allow-Origin'', ''*''),
      (''Access-Control-Allow-Headers'', ''Content-Type,X-Api-Key''),
      (''Access-Control-Allow-Methods'', ''POST,OPTIONS'')]"

definition success_response :: "json \<Rightarrow> string \<Rightarrow> json \<Rightarrow> response" where
  "success_response request_id roast meta =
     \<lparr>statusCode = 200, headers = cors_headers,
      body = JObject [(''request_id'', request_id), (''roast'', JString roast), (''metadata'', meta)]\<rparr>"

definition error_response :: "int \<Rightarrow> string \<Rightarrow> response" where
  "error_response status_code message =
     \<lparr>statusCode = status_code, headers = cors_headers,
      body = JObject [(''error'', JString message)]\<rparr>"

definition queries :: "string list" where
  "queries =
     [''work experience and accomplishments'',
      ''skills and qualifications'',
      ''formatting and presentation issues'']"

text \<open>
  The loop over the queries: \<^verbatim>\<open>all_context_docs.extend(retrieve_context(vectorstore, query, k))\<close>
  for each query in turn. The handler runs it on \<open>queries\<close> with \<open>k = 3\<close>, from the
  empty list.
\<close>

fun collect_context ::
  "'vs env \<Rightarrow> 'vs \<Rightarrow> string list \<Rightarrow> int \<Rightarrow> document list \<Rightarrow> document list action" where
  "collect_context env vectorstore [] k all_context_docs = returns all_context_docs"
| "collect_context env vectorstore (query # rest) k all_context_docs =
     and_then (retrieve_context env vectorstore query k)
       (\<lambda>context_docs. collect_context env vectorstore rest k (all_context_docs @ context_docs))"

text \<open>
  \<^verbatim>\<open>[f"Section {i+1}:\n{doc.page_content}" for i, doc in enumerate(all_context_docs[:5])]\<close>
  and its join.
\<close>

definition context_sections :: "document list \<Rightarrow> string list" where
  "context_sections all_context_docs =
     map (\<lambda>(i, doc). ''Section '' @ str_nat (i + 1) @ '':'' @ newline @ page_content doc)
       (enumerate 0 (take 5 all_context_docs))"

definition context_text :: "document list \<Rightarrow> string" where
  "context_text all_context_docs = str_join (newline @ newline) (context_sections all_context_docs)"

text \<open>The clean-up block: the removal is tried, and its failure is printed, not raised.\<close>

definition cleanup :: "'vs env \<Rightarrow> string \<Rightarrow> unit action" where
  "cleanup env pdf_path =
     try_except
       (and_then
          (\<lambda>w. if os_path_exists pdf_path w then os_remove env pdf_path w else returns () w)
          (\<lambda>_. python_print ''[HANDLER] Cleaned up temporary files''))
       (\<lambda>e. python_print (''[HANDLER] Warning: Cleanup failed: '' @ exc_message e))"

definition response_metadata :: "'vs env \<Rightarrow> document list \<Rightarrow> document list \<Rightarrow> json" where
  "response_metadata env chunks documents =
     JObject
       [(''chunks_processed'', JInt (int (length chunks))),
        (''pages_processed'', JInt (int (length documents))),
        (''processing_time_ms'', JInt (py_int ((time_after_roast env - time_at_entry env) * 1000))),
        (''model_used'', JString ''claude-3-5-sonnet-v2''),
        (''embedding_model'', JString ''titan-embed-text-v1'')]"

text \<open>Steps 2 to 7 of the \<^verbatim>\<open>try\<close> block, the clean-up and the success response.\<close>

definition process_pdf :: "'vs env \<Rightarrow> json \<Rightarrow> string \<Rightarrow> response action" where
  "process_pdf env request_id pdf_path =
     and_then (python_print ''[HANDLER] Loading PDF...'') (\<lambda>_.
     and_then (load_pdf env pdf_path) (\<lambda>documents.
     if documents = [] then
       returns (error_response 400 ''PDF appears to be empty or unreadable'')
     else
     and_then (python_print ''[HANDLER] Chunking text...'') (\<lambda>_.
     and_then (chunk_text env documents) (\<lambda>chunks.
     and_then (python_print ''[HANDLER] Initializing vector store...'') (\<lambda>_.
     and_then (initialize_vectorstore env chunks request_id) (\<lambda>vectorstore.
     and_then (collect_context env vectorstore queries 3 []) (\<lambda>all_context_docs.
     and_then (python_print ''[HANDLER] Generating roast...'') (\<lambda>_.
     and_then (generate_roast env (context_text all_context_docs) (extract_full_text documents))
       (\<lambda>roast.
     and_then (cleanup env pdf_path) (\<lambda>_.
     returns (success_response request_id roast (response_metadata env chunks documents))
     ))))))))))"

text \<open>\<^verbatim>\<open>pdf_path = f"/tmp/{request_id}.pdf"\<close>.\<close>

definition scratch_path :: "'vs env \<Rightarrow> json \<Rightarrow> string" where
  "scratch_path env request_id = ''/tmp/'' @ py_format env request_id @ ''.pdf''"

text \<open>
  The \<^verbatim>\<open>try\<close> block of \<^verbatim>\<open>lambda_handler\<close>: parsing, validation, the download with its
  own \<^verbatim>\<open>except\<close>, then the rest. An early \<^verbatim>\<open>return\<close> is a returned response.
\<close>

definition handler_try :: "'vs env \<Rightarrow> event \<Rightarrow> response action" where
  "handler_try env event =
     and_then (python_print ''[HANDLER] Parsing request body...'') (\<lambda>_.
     and_then (lift (json_loads env (event_body event))) (\<lambda>body.
     and_then (lift (dict_get body ''s3_bucket'')) (\<lambda>s3_bucket.
     and_then (lift (dict_get body ''s3_key'')) (\<lambda>s3_key.
     and_then (lift (dict_get body ''request_id'')) (\<lambda>request_id.
     if \<not> list_all truthy [s3_bucket, s3_key, request_id] then
       returns (error_response 400 ''Missing required fields: s3_bucket, s3_key, request_id'')
     else
     and_then (python_print (''[HANDLER] Processing request '' @ py_format env request_id)) (\<lambda>_.
     and_then (python_print (''[HANDLER] S3 location: s3://'' @ py_format env s3_bucket @ ''/'' @
        py_format env s3_key)) (\<lambda>_.
     let pdf_path = scratch_path env request_id in
     and_then (python_print (''[HANDLER] Downloading PDF to '' @ pdf_path @ ''...'')) (\<lambda>_.
     (\<lambda>w.
        case and_then (download_file env s3_bucket s3_key pdf_path) (\<lambda>_.
             and_then (os_path_getsize pdf_path) (\<lambda>file_size.
             python_print (''[HANDLER] Downloaded '' @ str_nat file_size @ '' bytes''))) w of
          (Inl e, w') \<Rightarrow>
            returns (error_response 500 (''Failed to download PDF from S3: '' @ exc_message e)) w'
        | (Inr _, w') \<Rightarrow> process_pdf env request_id pdf_path w')
     ))))))))"

text \<open>
  \<^verbatim>\<open>lambda_handler(event, context)\<close>; the Lambda context object is not read. The result
  is the response and the world the handler leaves.
\<close>

definition lambda_handler :: "'vs env \<Rightarrow> event \<Rightarrow> world \<Rightarrow> response \<times> world" where
  "lambda_handler env event w =
     (case handler_try env event w of
        (Inr resp, w') \<Rightarrow> (resp, w')
      | (Inl (JSONDecodeError m), w') \<Rightarrow> (error_response 400 ''Invalid JSON in request body'', w')
      | (Inl (OtherException m), w') \<Rightarrow>
          (error_response 500 (''Internal server error: '' @ m),
           emit Print_traceback (emit (Print (''[HANDLER] Unexpected error: '' @ m)) w')))"

section \<open>Reading a response and describing a run\<close>

text \<open>Reading the response body: a member of an object, and a member of its \<^verbatim>\<open>metadata\<close>.\<close>

fun member :: "json \<Rightarrow> string \<Rightarrow> json option" where
  "member (JObject kvs) k = map_of kvs k"
| "member v k = None"

definition metadata_field :: "response \<Rightarrow> string \<Rightarrow> json option" where
  "metadata_field resp k =
     (case member (body resp) ''metadata'' of None \<Rightarrow> None | Some m \<Rightarrow> member m k)"

text \<open>A required field of the parsed body is missing (no such key) or empty (a falsy value).\<close>

definition missing_or_empty :: "(string \<times> json) list \<Rightarrow> string \<Rightarrow> bool" where
  "missing_or_empty obj k = (case map_of obj k of None \<Rightarrow> True | Some v \<Rightarrow> \<not> truthy v)"

text \<open>
  The request proceeds past a successful download: the body parses to the object
  \<open>obj\<close>, its three fields are truthy, and S3 delivers \<open>content\<close> for them at the
  scratch path.
\<close>

definition downloaded :: "'vs env \<Rightarrow> event \<Rightarrow> (string \<times> json) list \<Rightarrow> blob \<Rightarrow> bool" where
  "downloaded env event obj content \<longleftrightarrow>
     json_loads env (event_body event) = Inr (JObject obj) \<and>
     truthy (dict_lookup obj ''s3_bucket'') \<and>
     truthy (dict_lookup obj ''s3_key'') \<and>
     truthy (dict_lookup obj ''request_id'') \<and>
     s3_object env (dict_lookup obj ''s3_bucket'') (dict_lookup obj ''s3_key'')
       (scratch_path env (dict_lookup obj ''request_id'')) = Inr content"

text \<open>
  The downloaded content loads to the pages \<open>documents\<close> (at least one), they split to
  \<open>chunks\<close>, and the chunks index to \<open>vectorstore\<close>.
\<close>

definition indexed ::
  "'vs env \<Rightarrow> blob \<Rightarrow> document list \<Rightarrow> document list \<Rightarrow> 'vs \<Rightarrow> bool" where
  "indexed env content documents chunks vectorstore \<longleftrightarrow>
     pdf_loader env (Some content) = Inr documents \<and>
     documents \<noteq> [] \<and>
     splitter env chunk_size chunk_overlap separators documents = Inr chunks \<and>
     faiss_from_documents env embedding_model_id chunks = Inr vectorstore"

text \<open>The calls to the chat model that a trace records.\<close>

fun is_chat_call :: "effect \<Rightarrow> bool" where
  "is_chat_call (ChatBedrock_invoke model kwargs messages) = True"
| "is_chat_call ef = False"

definition chat_calls :: "world \<Rightarrow> effect list" where
  "chat_calls w = filter is_chat_call (trace w)"

section \<open>Example runs\<close>

text \<open>
  A concrete environment: a decoder that knows four request bodies, a bucket with one
  object, a two-page resume, a splitter that keeps each page as one chunk, a store that
  answers every query with its first \<open>k\<close> chunks, a chat model with a fixed answer.
\<close>

definition body_ok :: string where
  "body_ok = ''{\"s3_bucket\": \"bucket1\", \"s3_key\": \"resumes/a.pdf\", \"request_id\": \"req-123\"}''"

definition body_incomplete :: string where
  "body_incomplete = ''{\"s3_bucket\": \"bucket1\", \"request_id\": \"\"}''"

definition example_decoder :: "string \<Rightarrow> py_exception + json" where
  "example_decoder s =
     (if s = ''{}'' then Inr (JObject [])
      else if s = ''[]'' then Inr (JArray [])
      else if s = body_ok then
        Inr (JObject [(''s3_bucket'', JString ''bucket1''), (''s3_key'', JString ''resumes/a.pdf''),
          (''request_id'', JString ''req-123'')])
      else if s = body_incomplete then
        Inr (JObject [(''s3_bucket'', JString ''bucket1''), (''request_id'', JString [])])
      else Inl (JSONDecodeError ''Expecting value: line 1 column 1 (char 0)''))"

definition example_pages :: "document list" where
  "example_pages =
     [\<lparr>page_content = ''Jane Doe'', metadata = [(''page'', JInt 0)]\<rparr>,
      \<lparr>page_content = ''Skills: Python'', metadata = [(''page'', JInt 1)]\<rparr>]"

definition example_env :: "(document list) env" where
  "example_env =
     \<lparr>json_decoder = example_decoder,
      str_builtin = (\<lambda>v. ''?''),
      s3_object = (\<lambda>bucket key path.
        if bucket = JString ''bucket1'' \<and> key = JString ''resumes/a.pdf'' then Inr ''%PDF-1.4''
        else Inl (OtherException ''An error occurred (404) when calling the HeadObject operation: Not Found'')),
      pdf_loader = (\<lambda>content. case content of
          None \<Rightarrow> Inl (OtherException ''File path is not a valid file or url'')
        | Some c \<Rightarrow> Inr example_pages),
      splitter = (\<lambda>size overlap seps docs. Inr docs),
      faiss_from_documents = (\<lambda>model chunks. Inr chunks),
      similarity_search = (\<lambda>store query k. Inr (take (nat k) store)),
      chat_invoke = (\<lambda>model kwargs messages. Inr ''bro is cooked''),
      os_remove_error = (\<lambda>path. None),
      time_at_entry = 10,
      time_after_roast = 25 / 2\<rparr>"

text \<open>The same, with a PDF of no pages; with a file the loader cannot parse; with a chat
  model that answers with the empty string; with a chat model that fails.\<close>

definition empty_pdf_env :: "(document list) env" where
  "empty_pdf_env = example_env\<lparr>pdf_loader := (\<lambda>content. Inr [])\<rparr>"

definition corrupt_pdf_env :: "(document list) env" where
  "corrupt_pdf_env =
     example_env\<lparr>pdf_loader := (\<lambda>content. Inl (OtherException ''EOF marker not found''))\<rparr>"

definition empty_completion_env :: "(document list) env" where
  "empty_completion_env = example_env\<lparr>chat_invoke := (\<lambda>model kwargs messages. Inr [])\<rparr>"

definition failing_chat_env :: "(document list) env" where
  "failing_chat_env =
     example_env\<lparr>chat_invoke := (\<lambda>model kwargs messages. Inl (OtherException ''ThrottlingException''))\<rparr>"

definition example_obj :: "(string \<times> json) list" where
  "example_obj =
     [(''s3_bucket'', JString ''bucket1''), (''s3_key'', JString ''resumes/a.pdf''),
      (''request_id'', JString ''req-123'')]"

definition event_ok :: event where
  "event_ok = [(''body'', JString body_ok)]"

definition event_incomplete :: event where
  "event_incomplete = [(''body'', JString body_incomplete)]"

definition event_no_body :: event where
  "event_no_body = [(''headers'', JObject [])]"

definition event_array_body :: event where
  "event_array_body = [(''body'', JString ''[]'')]"

definition empty_world :: world where
  "empty_world = \<lparr>files = (\<lambda>p. None), trace = []\<rparr>"

section \<open>Lemmas on the steps\<close>

lemmas action_defs =
  Let_def returns_def and_then_def try_except_def emit_def python_print_def call_def lift_def

lemma and_then_proj:
  "and_then m f w =
     (case fst (m w) of Inl e \<Rightarrow> (Inl e, snd (m w)) | Inr x \<Rightarrow> f x (snd (m w)))"
  by (simp add: and_then_def split: prod.splits sum.splits)

lemma top_level:
  "fst (lambda_handler env event w) =
     (case fst (handler_try env event w) of
        Inr resp \<Rightarrow> resp
      | Inl (JSONDecodeError m) \<Rightarrow> error_response 400 ''Invalid JSON in request body''
      | Inl (OtherException m) \<Rightarrow> error_response 500 (''Internal server error: '' @ m))"
  by (simp add: lambda_handler_def split: prod.splits sum.splits py_exception.splits)

lemma handler_try_missing:
  assumes "json_loads env (event_body event) = Inr (JObject obj)"
    and "\<not> (truthy (dict_lookup obj ''s3_bucket'') \<and> truthy (dict_lookup obj ''s3_key'') \<and>
           truthy (dict_lookup obj ''request_id''))"
  shows "handler_try env event w =
     (Inr (error_response 400 ''Missing required fields: s3_bucket, s3_key, request_id''),
      emit (Print ''[HANDLER] Parsing request body...'') w)"
  using assms by (auto simp add: handler_try_def action_defs)

lemma missing_or_empty_iff: "missing_or_empty obj k \<longleftrightarrow> \<not> truthy (dict_lookup obj k)"
  by (simp add: missing_or_empty_def dict_lookup_def split: option.splits)

lemma lambda_handler_missing:
  assumes "json_loads env (event_body event) = Inr (JObject obj)"
    and "missing_or_empty obj ''s3_bucket'' \<or> missing_or_empty obj ''s3_key'' \<or>
         missing_or_empty obj ''request_id''"
  shows "lambda_handler env event w =
     (error_response 400 ''Missing required fields: s3_bucket, s3_key, request_id'',
      emit (Print ''[HANDLER] Parsing request body...'') w)"
proof -
  have "\<not> (truthy (dict_lookup obj ''s3_bucket'') \<and> truthy (dict_lookup obj ''s3_key'') \<and>
           truthy (dict_lookup obj ''request_id''))"
    using assms(2) by (auto simp add: missing_or_empty_iff)
  from handler_try_missing [OF assms(1) this]
  show ?thesis by (simp add: lambda_handler_def)
qed

lemmas example_defs =
  body_ok_def body_incomplete_def example_decoder_def example_pages_def example_env_def
  empty_pdf_env_def corrupt_pdf_env_def empty_completion_env_def failing_chat_env_def
  example_obj_def event_ok_def event_incomplete_def event_no_body_def event_array_body_def
  empty_world_def

section \<open>The request parser\<close>




text \<open>
  Claim C10. When the event has no \<^verbatim>\<open>body\<close> key, the handler reads the body as the text
  \<^verbatim>\<open>{}\<close>, which the JSON decoder maps to the empty object, and answers with the 400
  missing-required-fields response; no exception is raised and no 500 is returned.
\<close>

theorem absent_body_rejected:
  assumes "map_of event ''body'' = None"
    and "json_decoder env ''{}'' = Inr (JObject [])"
  shows "event_body event = JString ''{}'' \<and>
     lambda_handler env event w =
       (error_response 400 ''Missing required fields: s3_bucket, s3_key, request_id'',
        emit (Print ''[HANDLER] Parsing request body...'') w)"
proof -
  have b: "event_body event = JString ''{}''"
    using assms(1) by (simp add: event_body_def)
  have "json_loads env (event_body event) = Inr (JObject [])"
    using assms(2) b by (simp add: json_loads_def)
  moreover have "missing_or_empty [] ''s3_bucket''"
    by (simp add: missing_or_empty_def)
  ultimately show ?thesis
    using b lambda_handler_missing [of env event "[]" w] by simp
qed

text \<open>An event with headers only.\<close>

theorem absent_body_rejected_witness:
  "map_of event_no_body ''body'' = None \<and>
   json_decoder example_env ''{}'' = Inr (JObject []) \<and>
   statusCode (fst (lambda_handler example_env event_no_body empty_world)) = 400 \<and>
   body (fst (lambda_handler example_env event_no_body empty_world)) =
     JObject [(''error'', JString ''Missing required fields: s3_bucket, s3_key, request_id'')]"
proof -
  have a: "map_of event_no_body ''body'' = None"
    by (simp add: event_no_body_def)
  have d: "json_decoder example_env ''{}'' = Inr (JObject [])"
    by (simp add: example_env_def example_decoder_def)
  from absent_body_rejected [OF a d, of empty_world] a d
  show ?thesis by (simp add: error_response_def)
qed

section \<open>After the download\<close>

lemma handler_try_downloaded:
  assumes "downloaded env event obj content"
  shows "\<exists>w1. handler_try env event w =
           process_pdf env (dict_lookup obj ''request_id'')
             (scratch_path env (dict_lookup obj ''request_id'')) w1 \<and>
         files w1 = (files w)(scratch_path env (dict_lookup obj ''request_id'') \<mapsto> content)"
  using assms
  apply (simp add: downloaded_def handler_try_def action_defs download_file_def os_path_getsize_def)
  apply (rule exI, rule conjI, rule refl)
  apply simp
  done

lemma process_pdf_empty:
  assumes "files w pdf_path = Some content" and "pdf_loader env (Some content) = Inr []"
  shows "\<exists>w'. process_pdf env request_id pdf_path w =
           (Inr (error_response 400 ''PDF appears to be empty or unreadable''), w') \<and>
         files w' = files w"
  using assms by (simp add: process_pdf_def action_defs load_pdf_def)

lemma process_pdf_unloadable:
  assumes "files w pdf_path = Some content" and "pdf_loader env (Some content) = Inl e"
  shows "\<exists>w'. process_pdf env request_id pdf_path w = (Inl e, w') \<and> files w' = files w"
  using assms by (simp add: process_pdf_def action_defs load_pdf_def)

lemma lambda_handler_files:
  "files (snd (lambda_handler env event w)) = files (snd (handler_try env event w))"
  by (simp add: lambda_handler_def emit_def split: prod.splits sum.splits py_exception.splits)

lemma empty_pdf_run:
  assumes "downloaded env event obj content" and "pdf_loader env (Some content) = Inr []"
  shows "fst (lambda_handler env event w) =
           error_response 400 ''PDF appears to be empty or unreadable'' \<and>
         files (snd (lambda_handler env event w)) =
           (files w)(scratch_path env (dict_lookup obj ''request_id'') \<mapsto> content)"
proof -
  from handler_try_downloaded [OF assms(1), of w] obtain w1 where
    1: "handler_try env event w =
          process_pdf env (dict_lookup obj ''request_id'')
            (scratch_path env (dict_lookup obj ''request_id'')) w1"
    and 2: "files w1 = (files w)(scratch_path env (dict_lookup obj ''request_id'') \<mapsto> content)"
    by blast
  from 2 have "files w1 (scratch_path env (dict_lookup obj ''request_id'')) = Some content"
    by simp
  from process_pdf_empty [OF this assms(2), of "dict_lookup obj ''request_id''"] obtain w' where
    "process_pdf env (dict_lookup obj ''request_id'')
       (scratch_path env (dict_lookup obj ''request_id'')) w1 =
       (Inr (error_response 400 ''PDF appears to be empty or unreadable''), w')"
    and "files w' = files w1"
    by blast
  with 1 2 show ?thesis
    by (simp add: top_level lambda_handler_files)
qed

lemma unloadable_pdf_run:
  assumes "downloaded env event obj content" and "pdf_loader env (Some content) = Inl e"
  shows "fst (lambda_handler env event w) =
           (case e of
              JSONDecodeError m \<Rightarrow> error_response 400 ''Invalid JSON in request body''
            | OtherException m \<Rightarrow> error_response 500 (''Internal server error: '' @ m)) \<and>
         files (snd (lambda_handler env event w)) =
           (files w)(scratch_path env (dict_lookup obj ''request_id'') \<mapsto> content)"
proof -
  from handler_try_downloaded [OF assms(1), of w] obtain w1 where
    1: "handler_try env event w =
          process_pdf env (dict_lookup obj ''request_id'')
            (scratch_path env (dict_lookup obj ''request_id'')) w1"
    and 2: "files w1 = (files w)(scratch_path env (dict_lookup obj ''request_id'') \<mapsto> content)"
    by blast
  from 2 have "files w1 (scratch_path env (dict_lookup obj ''request_id'')) = Some content"
    by simp
  from process_pdf_unloadable [OF this assms(2), of "dict_lookup obj ''request_id''"] obtain w' where
    "process_pdf env (dict_lookup obj ''request_id'')
       (scratch_path env (dict_lookup obj ''request_id'')) w1 = (Inl e, w')"
    and "files w' = files w1"
    by blast
  with 1 2 show ?thesis
    by (simp add: top_level lambda_handler_files)
qed

lemma example_downloaded:
  assumes "json_decoder env = example_decoder" and "s3_object env = s3_object example_env"
  shows "downloaded env event_ok example_obj ''%PDF-1.4''"
  using assms
  by (simp add: downloaded_def json_loads_def event_body_def dict_lookup_def scratch_path_def
      py_format_def example_defs)

lemma example_scratch_path:
  "scratch_path env (dict_lookup example_obj ''request_id'') = ''/tmp/req-123.pdf''"
  by (simp add: scratch_path_def py_format_def dict_lookup_def example_obj_def)

lemma collect_context_results:
  assumes "\<forall>q\<in>set qs. similarity_search env vectorstore q k = Inr (results q)"
  shows "collect_context env vectorstore qs k acc w =
     (Inr (acc @ concat (map results qs)),
      w\<lparr>trace := trace w @ concat (map (\<lambda>q.
          [Similarity_search q k,
           Print (''[RAG] Retrieved '' @ str_nat (length (results q)) @ '' relevant chunks'')]) qs)\<rparr>)"
  using assms
proof (induction qs arbitrary: acc w)
  case Nil
  then show ?case by (simp add: returns_def)
next
  case (Cons q qs)
  then show ?case
    by (simp add: retrieve_context_def action_defs)
qed

lemma cleanup_result: "fst (cleanup env pdf_path w) = Inr ()"
  by (simp add: cleanup_def action_defs os_remove_def split: option.splits)

lemma process_pdf_generation:
  assumes "files w pdf_path = Some content"
    and "indexed env content documents chunks vectorstore"
    and "\<forall>q\<in>set queries. similarity_search env vectorstore q 3 = Inr (results q)"
  shows "fst (process_pdf env request_id pdf_path w) =
     (case chat_invoke env chat_model_id model_kwargs
             (chat_messages (context_text (concat (map results queries)))
                (extract_full_text documents)) of
        Inl e \<Rightarrow> Inl e
      | Inr roast \<Rightarrow>
          Inr (success_response request_id roast (response_metadata env chunks documents)))"
  using assms(1,2)
  by (simp add: process_pdf_def indexed_def and_then_proj python_print_def returns_def call_def
        load_pdf_def chunk_text_def initialize_vectorstore_def generate_roast_def
        collect_context_results [OF assms(3)] emit_def cleanup_result
      split: sum.splits)

lemma generation_run:
  assumes "downloaded env event obj content"
    and "indexed env content documents chunks vectorstore"
    and "\<forall>q\<in>set queries. similarity_search env vectorstore q 3 = Inr (results q)"
  shows "fst (lambda_handler env event w) =
     (case chat_invoke env chat_model_id model_kwargs
             (chat_messages (context_text (concat (map results queries)))
                (extract_full_text documents)) of
        Inl (JSONDecodeError m) \<Rightarrow> error_response 400 ''Invalid JSON in request body''
      | Inl (OtherException m) \<Rightarrow> error_response 500 (''Internal server error: '' @ m)
      | Inr roast \<Rightarrow>
          success_response (dict_lookup obj ''request_id'') roast
            (response_metadata env chunks documents))"
proof -
  from handler_try_downloaded [OF assms(1), of w] obtain w1 where
    1: "handler_try env event w =
          process_pdf env (dict_lookup obj ''request_id'')
            (scratch_path env (dict_lookup obj ''request_id'')) w1"
    and 2: "files w1 = (files w)(scratch_path env (dict_lookup obj ''request_id'') \<mapsto> content)"
    by blast
  from 2 have "files w1 (scratch_path env (dict_lookup obj ''request_id'')) = Some content"
    by simp
  from process_pdf_generation [OF this assms(2,3), of "dict_lookup obj ''request_id''"] 1
  show ?thesis
    by (simp add: top_level split: sum.splits py_exception.splits)
qed

lemma example_indexed:
  assumes "pdf_loader env = pdf_loader example_env" and "splitter env = splitter example_env"
    and "faiss_from_documents env = faiss_from_documents example_env"
  shows "indexed env ''%PDF-1.4'' example_pages example_pages example_pages"
  using assms by (simp add: indexed_def example_env_def example_pages_def)

lemma example_searches:
  assumes "similarity_search env = similarity_search example_env"
  shows "\<forall>q\<in>set queries. similarity_search env example_pages q 3 = Inr ((\<lambda>q. example_pages) q)"
  using assms by (simp add: example_env_def example_pages_def)

section \<open>Text extraction\<close>

text \<open>
  Claim C2. A downloaded document from which text extraction produces zero pages, or
  which cannot be parsed, is to be answered with status 400. The handler's 400 branch
  for an empty or unreadable PDF is reached only when the loader returns an empty
  list. At the first request below the loader raises on the downloaded file: nothing
  catches that before the catch-all, and the handler returns status 500. At the second
  request the loader returns no page, and the handler returns status 400 with the
  message for an empty or unreadable PDF.
\<close>

theorem unparseable_pdf_is_500:
  "pdf_loader corrupt_pdf_env (Some ''%PDF-1.4'') = Inl (OtherException ''EOF marker not found'') \<and>
   fst (lambda_handler corrupt_pdf_env event_ok empty_world) =
     error_response 500 ''Internal server error: EOF marker not found'' \<and>
   statusCode (fst (lambda_handler corrupt_pdf_env event_ok empty_world)) = 500 \<and>
   pdf_loader empty_pdf_env (Some ''%PDF-1.4'') = Inr [] \<and>
   fst (lambda_handler empty_pdf_env event_ok empty_world) =
     error_response 400 ''PDF appears to be empty or unreadable''"
proof -
  have d: "downloaded corrupt_pdf_env event_ok example_obj ''%PDF-1.4''"
    by (rule example_downloaded) (simp_all add: corrupt_pdf_env_def example_env_def)
  have l: "pdf_loader corrupt_pdf_env (Some ''%PDF-1.4'') = Inl (OtherException ''EOF marker not found'')"
    by (simp add: corrupt_pdf_env_def)
  have d': "downloaded empty_pdf_env event_ok example_obj ''%PDF-1.4''"
    by (rule example_downloaded) (simp_all add: empty_pdf_env_def example_env_def)
  have l': "pdf_loader empty_pdf_env (Some ''%PDF-1.4'') = Inr []"
    by (simp add: empty_pdf_env_def)
  from unloadable_pdf_run [OF d l, of empty_world] empty_pdf_run [OF d' l', of empty_world] l l'
  show ?thesis
    by (simp add: error_response_def)
qed

section \<open>Roast generation\<close>

text \<open>
  Claim C3, as stated, fails on an empty completion: the code does not look at the
  content the chat model returns, so the empty string comes back as the roast of a
  status 200 response.
\<close>

theorem empty_completion_is_success:
  "statusCode (fst (lambda_handler empty_completion_env event_ok empty_world)) = 200 \<and>
   member (body (fst (lambda_handler empty_completion_env event_ok empty_world))) ''roast'' =
     Some (JString [])"
proof -
  have d: "downloaded empty_completion_env event_ok example_obj ''%PDF-1.4''"
    by (rule example_downloaded) (simp_all add: empty_completion_env_def example_env_def)
  have i: "indexed empty_completion_env ''%PDF-1.4'' example_pages example_pages example_pages"
    by (rule example_indexed) (simp_all add: empty_completion_env_def)
  have s: "\<forall>q\<in>set queries.
      similarity_search empty_completion_env example_pages q 3 = Inr ((\<lambda>q. example_pages) q)"
    by (rule example_searches) (simp add: empty_completion_env_def)
  from generation_run [OF d i s, of empty_world]
  show ?thesis
    by (simp add: empty_completion_env_def success_response_def)
qed

text \<open>
  Claim C3, amended. For every request that reaches the roast generator (downloaded,
  loaded to at least one page, split, indexed, all three searches answered): if the
  chat model raises (an exception of any class that the handler does not single out;
  a JSON decode error is left aside here), the handler returns status 500 with the
  internal-server-error message; if it returns content, that content, empty or not,
  is the roast of a status 200 response, unchanged.
\<close>

theorem generation_outcome:
  assumes "downloaded env event obj content"
    and "indexed env content documents chunks vectorstore"
    and "\<forall>q\<in>set queries. similarity_search env vectorstore q 3 = Inr (results q)"
  shows "(\<forall>m. chat_invoke env chat_model_id model_kwargs
               (chat_messages (context_text (concat (map results queries)))
                  (extract_full_text documents)) = Inl (OtherException m) \<longrightarrow>
            fst (lambda_handler env event w) =
              error_response 500 (''Internal server error: '' @ m)) \<and>
         (\<forall>roast. chat_invoke env chat_model_id model_kwargs
               (chat_messages (context_text (concat (map results queries)))
                  (extract_full_text documents)) = Inr roast \<longrightarrow>
            fst (lambda_handler env event w) =
              success_response (dict_lookup obj ''request_id'') roast
                (response_metadata env chunks documents))"
  using generation_run [OF assms, of w] by simp

text \<open>A chat model that is throttled, and one that answers with the empty string.\<close>

theorem generation_outcome_witness:
  "downloaded failing_chat_env event_ok example_obj ''%PDF-1.4'' \<and>
   indexed failing_chat_env ''%PDF-1.4'' example_pages example_pages example_pages \<and>
   list_all (\<lambda>q. similarity_search failing_chat_env example_pages q 3 = Inr example_pages)
     queries \<and>
   fst (lambda_handler failing_chat_env event_ok empty_world) =
     error_response 500 ''Internal server error: ThrottlingException'' \<and>
   fst (lambda_handler empty_completion_env event_ok empty_world) =
     success_response (JString ''req-123'') []
       (response_metadata empty_completion_env example_pages example_pages)"
proof -
  have d: "downloaded failing_chat_env event_ok example_obj ''%PDF-1.4''"
    by (rule example_downloaded) (simp_all add: failing_chat_env_def example_env_def)
  have i: "indexed failing_chat_env ''%PDF-1.4'' example_pages example_pages example_pages"
    by (rule example_indexed) (simp_all add: failing_chat_env_def)
  have s: "\<forall>q\<in>set queries.
      similarity_search failing_chat_env example_pages q 3 = Inr ((\<lambda>q. example_pages) q)"
    by (rule example_searches) (simp add: failing_chat_env_def)
  have d': "downloaded empty_completion_env event_ok example_obj ''%PDF-1.4''"
    by (rule example_downloaded) (simp_all add: empty_completion_env_def example_env_def)
  have i': "indexed empty_completion_env ''%PDF-1.4'' example_pages example_pages example_pages"
    by (rule example_indexed) (simp_all add: empty_completion_env_def)
  have s': "\<forall>q\<in>set queries.
      similarity_search empty_completion_env example_pages q 3 = Inr ((\<lambda>q. example_pages) q)"
    by (rule example_searches) (simp add: empty_completion_env_def)
  from generation_outcome [OF d i s, of empty_world] generation_outcome [OF d' i' s', of empty_world]
    d i s
  show ?thesis
    by (simp add: failing_chat_env_def empty_completion_env_def dict_lookup_def example_obj_def
        list_all_iff)
qed

section \<open>Successful responses\<close>

lemma lambda_handler_success:
  assumes "statusCode (fst (lambda_handler env event w)) = 200"
  shows "\<exists>w'. handler_try env event w = (Inr (fst (lambda_handler env event w)), w')"
  using assms
  by (auto simp add: lambda_handler_def error_response_def
      split: prod.splits sum.splits py_exception.splits)

lemma handler_try_success:
  assumes "handler_try env event w = (Inr resp, w')" and "statusCode resp = 200"
  shows "\<exists>obj content w1. downloaded env event obj content \<and>
           process_pdf env (dict_lookup obj ''request_id'')
             (scratch_path env (dict_lookup obj ''request_id'')) w1 = (Inr resp, w') \<and>
           files w1 (scratch_path env (dict_lookup obj ''request_id'')) = Some content"
proof (cases "json_loads env (event_body event)")
  case (Inl e)
  with assms show ?thesis
    by (simp add: handler_try_def action_defs)
next
  case (Inr parsed)
  show ?thesis
  proof (cases parsed)
    case (JObject obj)
    with Inr assms show ?thesis
      by (auto simp add: handler_try_def action_defs download_file_def os_path_getsize_def
          downloaded_def error_response_def split: if_splits sum.splits)
  qed (use Inr assms in \<open>simp_all add: handler_try_def action_defs\<close>)
qed

lemma process_pdf_success:
  assumes "process_pdf env request_id pdf_path w = (Inr resp, w')"
    and "statusCode resp = 200"
    and "files w pdf_path = Some content"
  shows "\<exists>documents chunks vectorstore all_context_docs roast w2.
           indexed env content documents chunks vectorstore \<and>
           fst (collect_context env vectorstore queries 3 [] w2) = Inr all_context_docs \<and>
           chat_invoke env chat_model_id model_kwargs
             (chat_messages (context_text all_context_docs) (extract_full_text documents)) =
             Inr roast \<and>
           resp = success_response request_id roast (response_metadata env chunks documents)"
proof -
  have "fst (process_pdf env request_id pdf_path w) = Inr resp"
    using assms(1) by simp
  with assms(2,3) show ?thesis
    by (auto simp add: process_pdf_def and_then_proj python_print_def returns_def call_def
        load_pdf_def chunk_text_def initialize_vectorstore_def generate_roast_def
        emit_def cleanup_result error_response_def indexed_def
        split: sum.splits if_splits)
qed

lemma success_run:
  assumes "statusCode (fst (lambda_handler env event w)) = 200"
  shows "\<exists>obj content documents chunks vectorstore all_context_docs roast w2.
           downloaded env event obj content \<and>
           indexed env content documents chunks vectorstore \<and>
           fst (collect_context env vectorstore queries 3 [] w2) = Inr all_context_docs \<and>
           chat_invoke env chat_model_id model_kwargs
             (chat_messages (context_text all_context_docs) (extract_full_text documents)) =
             Inr roast \<and>
           fst (lambda_handler env event w) =
             success_response (dict_lookup obj ''request_id'') roast
               (response_metadata env chunks documents)"
proof -
  from lambda_handler_success [OF assms] obtain w' where
    1: "handler_try env event w = (Inr (fst (lambda_handler env event w)), w')"
    by blast
  from handler_try_success [OF 1 assms] obtain obj content w1 where
    2: "downloaded env event obj content"
    and 3: "process_pdf env (dict_lookup obj ''request_id'')
             (scratch_path env (dict_lookup obj ''request_id'')) w1 =
             (Inr (fst (lambda_handler env event w)), w')"
    and 4: "files w1 (scratch_path env (dict_lookup obj ''request_id'')) = Some content"
    by blast
  from process_pdf_success [OF 3 assms 4] 2 show ?thesis
    by blast
qed

lemma metadata_of_success:
  "metadata_field (success_response request_id roast (response_metadata env chunks documents)) k =
     map_of
       [(''chunks_processed'', JInt (int (length chunks))),
        (''pages_processed'', JInt (int (length documents))),
        (''processing_time_ms'', JInt (py_int ((time_after_roast env - time_at_entry env) * 1000))),
        (''model_used'', JString ''claude-3-5-sonnet-v2''),
        (''embedding_model'', JString ''titan-embed-text-v1'')] k"
  by (simp add: metadata_field_def success_response_def response_metadata_def)

text \<open>
  Claim C4. Every status 200 response comes from a run in which the loader produced
  pages \<open>documents\<close> from the downloaded content and the splitter produced \<open>chunks\<close>
  from those pages; its \<^verbatim>\<open>metadata.chunks_processed\<close> is the length of \<open>chunks\<close> and its
  \<^verbatim>\<open>metadata.pages_processed\<close> is the length of \<open>documents\<close>.
\<close>

theorem metadata_counts:
  assumes "statusCode (fst (lambda_handler env event w)) = 200"
  shows "\<exists>obj content documents chunks.
           downloaded env event obj content \<and>
           pdf_loader env (Some content) = Inr documents \<and>
           splitter env chunk_size chunk_overlap separators documents = Inr chunks \<and>
           metadata_field (fst (lambda_handler env event w)) ''chunks_processed'' =
             Some (JInt (int (length chunks))) \<and>
           metadata_field (fst (lambda_handler env event w)) ''pages_processed'' =
             Some (JInt (int (length documents)))"
proof -
  from success_run [OF assms] obtain obj content documents chunks vectorstore roast where
    d: "downloaded env event obj content"
    and i: "indexed env content documents chunks vectorstore"
    and r: "fst (lambda_handler env event w) =
             success_response (dict_lookup obj ''request_id'') roast
               (response_metadata env chunks documents)"
    by blast
  from i have "pdf_loader env (Some content) = Inr documents"
    and "splitter env chunk_size chunk_overlap separators documents = Inr chunks"
    by (simp_all add: indexed_def)
  with d r show ?thesis
    by (auto simp add: metadata_of_success)
qed

lemma example_success:
  "fst (lambda_handler example_env event_ok empty_world) =
     success_response (JString ''req-123'') ''bro is cooked''
       (response_metadata example_env example_pages example_pages)"
proof -
  have d: "downloaded example_env event_ok example_obj ''%PDF-1.4''"
    by (rule example_downloaded) (simp_all add: example_env_def)
  have i: "indexed example_env ''%PDF-1.4'' example_pages example_pages example_pages"
    by (rule example_indexed) simp_all
  have s: "\<forall>q\<in>set queries.
      similarity_search example_env example_pages q 3 = Inr ((\<lambda>q. example_pages) q)"
    by (rule example_searches) simp
  from generation_run [OF d i s, of empty_world]
  show ?thesis
    by (simp add: example_env_def dict_lookup_def example_obj_def)
qed

text \<open>The two-page resume, kept as two chunks.\<close>

theorem metadata_counts_witness:
  "statusCode (fst (lambda_handler example_env event_ok empty_world)) = 200 \<and>
   (\<exists>obj content documents chunks.
      downloaded example_env event_ok obj content \<and>
      pdf_loader example_env (Some content) = Inr documents \<and>
      splitter example_env chunk_size chunk_overlap separators documents = Inr chunks \<and>
      metadata_field (fst (lambda_handler example_env event_ok empty_world)) ''chunks_processed'' =
        Some (JInt (int (length chunks))) \<and>
      metadata_field (fst (lambda_handler example_env event_ok empty_world)) ''pages_processed'' =
        Some (JInt (int (length documents)))) \<and>
   metadata_field (fst (lambda_handler example_env event_ok empty_world)) ''chunks_processed'' =
     Some (JInt 2) \<and>
   metadata_field (fst (lambda_handler example_env event_ok empty_world)) ''pages_processed'' =
     Some (JInt 2)"
proof -
  have ok: "statusCode (fst (lambda_handler example_env event_ok empty_world)) = 200"
    by (simp add: example_success success_response_def)
  have "metadata_field (fst (lambda_handler example_env event_ok empty_world)) ''chunks_processed'' =
     Some (JInt 2)"
    and "metadata_field (fst (lambda_handler example_env event_ok empty_world)) ''pages_processed'' =
     Some (JInt 2)"
    by (simp_all add: example_success metadata_of_success example_pages_def)
  with metadata_counts [OF ok] ok show ?thesis
    by blast
qed

text \<open>
  Claim C9. In every status 200 response \<^verbatim>\<open>metadata.model_used\<close> is the string
  \<^verbatim>\<open>claude-3-5-sonnet-v2\<close> and \<^verbatim>\<open>metadata.embedding_model\<close> is the string
  \<^verbatim>\<open>titan-embed-text-v1\<close>, whatever the run was; the roast of that response is what the
  chat model returned under the identifier \<^verbatim>\<open>us.anthropic.claude-3-5-sonnet-20241022-v2:0\<close>,
  and the index was built under \<^verbatim>\<open>amazon.titan-embed-text-v1\<close>.
\<close>

theorem model_names_fixed:
  assumes "statusCode (fst (lambda_handler env event w)) = 200"
  shows "metadata_field (fst (lambda_handler env event w)) ''model_used'' =
           Some (JString ''claude-3-5-sonnet-v2'') \<and>
         metadata_field (fst (lambda_handler env event w)) ''embedding_model'' =
           Some (JString ''titan-embed-text-v1'') \<and>
         (\<exists>messages roast.
            chat_invoke env ''us.anthropic.claude-3-5-sonnet-20241022-v2:0'' model_kwargs messages =
              Inr roast \<and>
            member (body (fst (lambda_handler env event w))) ''roast'' = Some (JString roast)) \<and>
         (\<exists>chunks vectorstore.
            faiss_from_documents env ''amazon.titan-embed-text-v1'' chunks = Inr vectorstore)"
proof -
  from success_run [OF assms] obtain obj content documents chunks vectorstore all_context_docs roast where
    i: "indexed env content documents chunks vectorstore"
    and c: "chat_invoke env chat_model_id model_kwargs
             (chat_messages (context_text all_context_docs) (extract_full_text documents)) =
             Inr roast"
    and r: "fst (lambda_handler env event w) =
             success_response (dict_lookup obj ''request_id'') roast
               (response_metadata env chunks documents)"
    by blast
  from i have f: "faiss_from_documents env ''amazon.titan-embed-text-v1'' chunks = Inr vectorstore"
    by (simp add: indexed_def embedding_model_id_def)
  from c have c': "chat_invoke env ''us.anthropic.claude-3-5-sonnet-20241022-v2:0'' model_kwargs
             (chat_messages (context_text all_context_docs) (extract_full_text documents)) =
             Inr roast"
    by (simp add: chat_model_id_def)
  have m: "member (body (fst (lambda_handler env event w))) ''roast'' = Some (JString roast)"
    by (simp add: r success_response_def)
  from f c' m show ?thesis
    by (auto simp add: r metadata_of_success)
qed

text \<open>The example run; the identifiers passed to the services are other strings.\<close>

theorem model_names_fixed_witness:
  "statusCode (fst (lambda_handler example_env event_ok empty_world)) = 200 \<and>
   metadata_field (fst (lambda_handler example_env event_ok empty_world)) ''model_used'' =
     Some (JString ''claude-3-5-sonnet-v2'') \<and>
   metadata_field (fst (lambda_handler example_env event_ok empty_world)) ''embedding_model'' =
     Some (JString ''titan-embed-text-v1'') \<and>
   chat_model_id \<noteq> ''claude-3-5-sonnet-v2'' \<and>
   embedding_model_id \<noteq> ''titan-embed-text-v1''"
proof -
  have ok: "statusCode (fst (lambda_handler example_env event_ok empty_world)) = 200"
    by (simp add: example_success success_response_def)
  from model_names_fixed [OF ok] ok show ?thesis
    by (simp add: chat_model_id_def embedding_model_id_def)
qed

section \<open>Retrieval\<close>

lemma length_context_sections:
  "length (context_sections all_context_docs) = min 5 (length all_context_docs)"
  by (simp add: context_sections_def min.commute)

lemma nth_context_sections:
  assumes "i < min 5 (length all_context_docs)"
  shows "context_sections all_context_docs ! i =
     ''Section '' @ str_nat (i + 1) @ '':'' @ newline @ page_content (all_context_docs ! i)"
  using assms by (simp add: context_sections_def nth_enumerate_eq)

lemma filter_search_trace:
  "filter is_chat_call (concat (map (\<lambda>q. [Similarity_search q k, Print (f q)]) qs)) = []"
  by (induction qs) simp_all

lemma chat_calls_cleanup: "chat_calls (snd (cleanup env pdf_path w)) = chat_calls w"
  by (simp add: chat_calls_def cleanup_def action_defs os_remove_def os_path_exists_def
      split: option.splits)

lemma chat_calls_top_level:
  "chat_calls (snd (lambda_handler env event w)) = chat_calls (snd (handler_try env event w))"
  by (simp add: chat_calls_def lambda_handler_def emit_def
      split: prod.splits sum.splits py_exception.splits)

lemma chat_calls_downloaded:
  assumes "downloaded env event obj content"
  shows "\<exists>w1. handler_try env event w =
           process_pdf env (dict_lookup obj ''request_id'')
             (scratch_path env (dict_lookup obj ''request_id'')) w1 \<and>
         files w1 (scratch_path env (dict_lookup obj ''request_id'')) = Some content \<and>
         chat_calls w1 = chat_calls w"
  using assms
  apply (simp add: downloaded_def handler_try_def action_defs download_file_def os_path_getsize_def)
  apply (rule exI, rule conjI, rule refl)
  apply (simp add: chat_calls_def)
  done

lemma chat_calls_process_pdf:
  assumes "files w pdf_path = Some content"
    and "indexed env content documents chunks vectorstore"
    and "\<forall>q\<in>set queries. similarity_search env vectorstore q 3 = Inr (results q)"
  shows "chat_calls (snd (process_pdf env request_id pdf_path w)) =
     chat_calls w @
     [ChatBedrock_invoke chat_model_id model_kwargs
        (chat_messages (context_text (concat (map results queries)))
           (extract_full_text documents))]"
  using assms(1,2)
  by (simp add: process_pdf_def indexed_def and_then_proj python_print_def returns_def call_def
        load_pdf_def chunk_text_def initialize_vectorstore_def generate_roast_def
        collect_context_results [OF assms(3)] emit_def cleanup_result
        chat_calls_cleanup [unfolded chat_calls_def] chat_calls_def filter_search_trace
      split: sum.splits)

lemma chat_calls_of_run:
  assumes "downloaded env event obj content"
    and "indexed env content documents chunks vectorstore"
    and "\<forall>q\<in>set queries. similarity_search env vectorstore q 3 = Inr (results q)"
  shows "chat_calls (snd (lambda_handler env event w)) =
     chat_calls w @
     [ChatBedrock_invoke chat_model_id model_kwargs
        (chat_messages (context_text (concat (map results queries)))
           (extract_full_text documents))]"
proof -
  from chat_calls_downloaded [OF assms(1), of w] obtain w1 where
    1: "handler_try env event w =
          process_pdf env (dict_lookup obj ''request_id'')
            (scratch_path env (dict_lookup obj ''request_id'')) w1"
    and 2: "files w1 (scratch_path env (dict_lookup obj ''request_id'')) = Some content"
    and 3: "chat_calls w1 = chat_calls w"
    by blast
  from chat_calls_process_pdf [OF 2 assms(2,3), of "dict_lookup obj ''request_id''"] 1 3
  show ?thesis
    by (simp add: chat_calls_top_level)
qed

text \<open>
  Claim C5. The prompt context is built from at most 5 retrieval results, the first 5
  of the combined list. For every list the loop may have collected, whatever the
  queries and the per-query count \<open>k\<close> were, the sections are as many as the list has
  entries, but no more than 5, and the \<open>i\<close>-th section is made from the \<open>i\<close>-th entry
  of the list. In a run of the handler that reaches the roast generator the chat model
  is called once, and the user message of that call holds the join of the sections of
  the concatenated per-query results.
\<close>

theorem context_at_most_five:
  assumes "downloaded env event obj content"
    and "indexed env content documents chunks vectorstore"
    and "\<forall>q\<in>set queries. similarity_search env vectorstore q 3 = Inr (results q)"
  shows "chat_calls (snd (lambda_handler env event w)) =
     chat_calls w @
     [ChatBedrock_invoke chat_model_id model_kwargs
        [(''system'', system_prompt),
         (''user'', user_prompt
            (str_join (newline @ newline) (context_sections (concat (map results queries))))
            (extract_full_text documents))]] \<and>
     length (context_sections all_context_docs) = min 5 (length all_context_docs) \<and>
     length (context_sections all_context_docs) \<le> 5 \<and>
     (\<forall>i<min 5 (length all_context_docs).
        context_sections all_context_docs ! i =
          ''Section '' @ str_nat (i + 1) @ '':'' @ newline @ page_content (all_context_docs ! i))"
  using chat_calls_of_run [OF assms, of w] nth_context_sections [of _ all_context_docs]
  by (simp add: chat_messages_def context_text_def length_context_sections)

text \<open>
  The example run: three queries with two results each, six results, five sections,
  the fifth made from the fifth result.
\<close>

theorem context_at_most_five_witness:
  "downloaded example_env event_ok example_obj ''%PDF-1.4'' \<and>
   indexed example_env ''%PDF-1.4'' example_pages example_pages example_pages \<and>
   list_all (\<lambda>q. similarity_search example_env example_pages q 3 = Inr example_pages) queries \<and>
   chat_calls (snd (lambda_handler example_env event_ok empty_world)) =
     [ChatBedrock_invoke chat_model_id model_kwargs
        [(''system'', system_prompt),
         (''user'', user_prompt
            (str_join (newline @ newline)
               (context_sections (example_pages @ example_pages @ example_pages)))
            (extract_full_text example_pages))]] \<and>
   length (example_pages @ example_pages @ example_pages) = 6 \<and>
   length (context_sections (example_pages @ example_pages @ example_pages)) = 5 \<and>
   context_sections (example_pages @ example_pages @ example_pages) ! 4 =
     ''Section 5:'' @ newline @ ''Jane Doe''"
proof -
  have d: "downloaded example_env event_ok example_obj ''%PDF-1.4''"
    by (rule example_downloaded) (simp_all add: example_env_def)
  have i: "indexed example_env ''%PDF-1.4'' example_pages example_pages example_pages"
    by (rule example_indexed) simp_all
  have s: "\<forall>q\<in>set queries.
      similarity_search example_env example_pages q 3 = Inr ((\<lambda>q. example_pages) q)"
    by (rule example_searches) simp
  have a: "list_all (\<lambda>q. similarity_search example_env example_pages q 3 = Inr example_pages)
      queries"
    using s by (simp add: list_all_iff)
  have cc: "concat (map (\<lambda>q. example_pages) queries) =
      example_pages @ example_pages @ example_pages"
    by (simp add: queries_def)
  have len: "length example_pages = 2"
    by (simp add: example_pages_def)
  have n: "str_nat 5 = ''5''"
    by (simp add: str_nat.simps digit_char_def)
  have p: "page_content ((example_pages @ example_pages @ example_pages) ! 4) = ''Jane Doe''"
    by (simp add: example_pages_def)
  note t = context_at_most_five [OF d i s, of empty_world
      "example_pages @ example_pages @ example_pages"]
  from t have c: "chat_calls (snd (lambda_handler example_env event_ok empty_world)) =
     [ChatBedrock_invoke chat_model_id model_kwargs
        [(''system'', system_prompt),
         (''user'', user_prompt
            (str_join (newline @ newline)
               (context_sections (example_pages @ example_pages @ example_pages)))
            (extract_full_text example_pages))]]"
    by (simp add: cc chat_calls_def empty_world_def)
  from t have l: "length (context_sections (example_pages @ example_pages @ example_pages)) = 5"
    by (simp add: len)
  from t have "\<forall>i<min 5 (length (example_pages @ example_pages @ example_pages)).
      context_sections (example_pages @ example_pages @ example_pages) ! i =
        ''Section '' @ str_nat (i + 1) @ '':'' @ newline @
        page_content ((example_pages @ example_pages @ example_pages) ! i)"
    by blast
  then have "context_sections (example_pages @ example_pages @ example_pages) ! 4 =
        ''Section '' @ str_nat (4 + 1) @ '':'' @ newline @
        page_content ((example_pages @ example_pages @ example_pages) ! 4)"
    by (simp add: len)
  then have f: "context_sections (example_pages @ example_pages @ example_pages) ! 4 =
     ''Section 5:'' @ newline @ ''Jane Doe''"
    by (simp add: n p)
  have "length (example_pages @ example_pages @ example_pages) = 6"
    by (simp add: len)
  with d i a c l f show ?thesis
    by blast
qed




section \<open>The clean-up\<close>

text \<open>
  On the success path the file is removed unless \<^verbatim>\<open>os.remove\<close> raises; then it stays and
  the run goes on.
\<close>

lemma success_files:
  assumes "files w pdf_path = Some content"
    and "indexed env content documents chunks vectorstore"
    and "\<forall>q\<in>set queries. similarity_search env vectorstore q 3 = Inr (results q)"
    and "chat_invoke env chat_model_id model_kwargs
           (chat_messages (context_text (concat (map results queries)))
              (extract_full_text documents)) = Inr roast"
  shows "files (snd (process_pdf env request_id pdf_path w)) =
           (case os_remove_error env pdf_path of
              None \<Rightarrow> (files w)(pdf_path := None)
            | Some e \<Rightarrow> files w)"
  using assms(1,2,4)
  by (simp add: process_pdf_def indexed_def and_then_proj python_print_def returns_def call_def
        load_pdf_def chunk_text_def initialize_vectorstore_def generate_roast_def
        collect_context_results [OF assms(3)] emit_def cleanup_result
        cleanup_def try_except_def os_path_exists_def os_remove_def
      split: sum.splits option.splits)

lemma success_run_files:
  assumes "downloaded env event obj content"
    and "indexed env content documents chunks vectorstore"
    and "\<forall>q\<in>set queries. similarity_search env vectorstore q 3 = Inr (results q)"
    and "chat_invoke env chat_model_id model_kwargs
           (chat_messages (context_text (concat (map results queries)))
              (extract_full_text documents)) = Inr roast"
  shows "files (snd (lambda_handler env event w)) =
           (case os_remove_error env (scratch_path env (dict_lookup obj ''request_id'')) of
              None \<Rightarrow> (files w)(scratch_path env (dict_lookup obj ''request_id'') := None)
            | Some e \<Rightarrow> (files w)(scratch_path env (dict_lookup obj ''request_id'') \<mapsto> content))"
proof -
  from handler_try_downloaded [OF assms(1), of w] obtain w1 where
    1: "handler_try env event w =
          process_pdf env (dict_lookup obj ''request_id'')
            (scratch_path env (dict_lookup obj ''request_id'')) w1"
    and 2: "files w1 = (files w)(scratch_path env (dict_lookup obj ''request_id'') \<mapsto> content)"
    by blast
  from 2 have "files w1 (scratch_path env (dict_lookup obj ''request_id'')) = Some content"
    by simp
  from success_files [OF this assms(2,3,4), of "dict_lookup obj ''request_id''"] 1 2
  show ?thesis
    by (simp add: lambda_handler_files split: option.splits)
qed

text \<open>
  Claim C1. The scratch PDF is to be removed before the response is returned, on the
  success path and on every failure path. The clean-up block stands after the roast
  generation, inside the \<^verbatim>\<open>try\<close> block, so only the success path reaches it. At the
  first request below the download succeeds and the loader yields no page: the handler
  returns status 400 and the downloaded file is still in the scratch directory. At the
  second request, which succeeds, the file is gone.
\<close>

theorem scratch_file_left_behind:
  "statusCode (fst (lambda_handler empty_pdf_env event_ok empty_world)) = 400 \<and>
   files (snd (lambda_handler empty_pdf_env event_ok empty_world)) ''/tmp/req-123.pdf'' =
     Some ''%PDF-1.4'' \<and>
   statusCode (fst (lambda_handler example_env event_ok empty_world)) = 200 \<and>
   files (snd (lambda_handler example_env event_ok empty_world)) ''/tmp/req-123.pdf'' = None"
proof -
  have d: "downloaded empty_pdf_env event_ok example_obj ''%PDF-1.4''"
    by (rule example_downloaded) (simp_all add: empty_pdf_env_def example_env_def)
  have l: "pdf_loader empty_pdf_env (Some ''%PDF-1.4'') = Inr []"
    by (simp add: empty_pdf_env_def)
  have d': "downloaded example_env event_ok example_obj ''%PDF-1.4''"
    by (rule example_downloaded) (simp_all add: example_env_def)
  have i': "indexed example_env ''%PDF-1.4'' example_pages example_pages example_pages"
    by (rule example_indexed) simp_all
  have s': "\<forall>q\<in>set queries.
      similarity_search example_env example_pages q 3 = Inr ((\<lambda>q. example_pages) q)"
    by (rule example_searches) simp
  have c': "chat_invoke example_env chat_model_id model_kwargs
       (chat_messages (context_text (concat (map (\<lambda>q. example_pages) queries)))
          (extract_full_text example_pages)) = Inr ''bro is cooked''"
    by (simp add: example_env_def)
  have r: "os_remove_error example_env ''/tmp/req-123.pdf'' = None"
    by (simp add: example_env_def)
  from empty_pdf_run [OF d l, of empty_world] success_run_files [OF d' i' s' c', of empty_world] r
  show ?thesis
    by (simp add: example_scratch_path error_response_def example_success success_response_def)
qed

end
